theory Spec2Isabelle
  imports Main "HOL-Library.Sublist" "HOL-Library.Multiset"
begin

section \<open>Data model of app.py\<close>

text \<open>
  The persistent store holds JSON dictionaries. A word entry has the keys
  \<^verbatim>\<open>word\<close>, \<^verbatim>\<open>date_added\<close>, \<^verbatim>\<open>speaks\<close>, \<^verbatim>\<open>asl\<close> and \<^verbatim>\<open>confidence\<close>.
  The two functions verified here read \<^verbatim>\<open>word\<close> and \<^verbatim>\<open>date_added\<close> with
  \<^verbatim>\<open>entry[key]\<close> and \<^verbatim>\<open>confidence\<close> with \<^verbatim>\<open>entry.get("confidence", 0)\<close>, so the
  first two are fields that are always there and the third is optional
  (\<open>None\<close> is a dictionary without the key). Confidence is a Python integer.
\<close>

record word_entry =
  word :: string
  date_added :: string
  confidence :: "int option"

text \<open>
  A child record: \<^verbatim>\<open>get_practice_words\<close> reads the word list with
  \<^verbatim>\<open>child_data.get("words", [])\<close>, \<^verbatim>\<open>create_vocabulary_chart\<close> with
  \<^verbatim>\<open>child_data["words"]\<close> and tests \<^verbatim>\<open>"birthday" not in child_data\<close>, so both keys
  are optional in the model.
\<close>

record child_data =
  words :: "word_entry list option"
  birthday :: "string option"

text \<open>
  A cell of the data frame that \<^verbatim>\<open>pandas.read_csv\<close> returns for a text column is a
  string, or NaN where the field of the CSV file is empty.
\<close>

datatype cell = Text string | NaN

text \<open>
  A row of \<^verbatim>\<open>typical_baby_words.csv\<close>. The columns \<^verbatim>\<open>Word\<close> and
  \<^verbatim>\<open>Typical Age (Months)\<close> are read with \<^verbatim>\<open>row[...]\<close>; \<^verbatim>\<open>Learning Strategy\<close> is read with
  \<^verbatim>\<open>row.get(..., default)\<close>, so it is \<open>None\<close> when the file has no such column.
  The typical age is an integer number of months.
\<close>

record typical_row =
  Word :: string
  Typical_Age_Months :: int
  Learning_Strategy :: "cell option"

type_synonym dataframe = "typical_row list"

text \<open>The dictionaries appended to \<^verbatim>\<open>practice_words\<close>.\<close>

record practice_word =
  rec_word :: string
  rec_confidence :: int
  typical_age :: int
  in_vocab :: bool
  strategy :: cell

datatype py_error = KeyError | ValueError

section \<open>Strings\<close>

text \<open>\<^verbatim>\<open>str.lower()\<close>, on the ASCII letters of a byte string.\<close>

definition lower_char :: "char \<Rightarrow> char" where
  "lower_char c =
     (case map_of (zip ''ABCDEFGHIJKLMNOPQRSTUVWXYZ'' ''abcdefghijklmnopqrstuvwxyz'') c of
        Some l \<Rightarrow> l
      | None \<Rightarrow> c)"

definition lower :: "string \<Rightarrow> string" where
  "lower s = map lower_char s"

definition default_strategy :: string where
  "default_strategy = ''Practice this word regularly with your child.''"

section \<open>get\_practice\_words\<close>

text \<open>\<^verbatim>\<open>row.get('Learning Strategy', default)\<close>\<close>

definition row_get_strategy :: "typical_row \<Rightarrow> cell \<Rightarrow> cell" where
  "row_get_strategy row dflt = (case Learning_Strategy row of None \<Rightarrow> dflt | Some c \<Rightarrow> c)"

text \<open>
  The two dictionary comprehensions over \<^verbatim>\<open>typical_words_df.iterrows()\<close>: a later row
  with the same lower-cased word overwrites an earlier one.
\<close>

definition typical_words_order :: "dataframe \<Rightarrow> (string \<rightharpoonup> int)" where
  "typical_words_order df =
     fold (\<lambda>row d. d(lower (Word row) \<mapsto> Typical_Age_Months row)) df Map.empty"

definition typical_words_strategies :: "dataframe \<Rightarrow> (string \<rightharpoonup> cell)" where
  "typical_words_strategies df =
     fold (\<lambda>row d. d(lower (Word row) \<mapsto> row_get_strategy row (Text ''''))) df Map.empty"

text \<open>\<^verbatim>\<open>word_entry.get("confidence", 0)\<close>\<close>

definition get_confidence :: "word_entry \<Rightarrow> int" where
  "get_confidence word_entry = (case confidence word_entry of None \<Rightarrow> 0 | Some c \<Rightarrow> c)"

text \<open>\<^verbatim>\<open>child_data.get("words", [])\<close>\<close>

definition get_words :: "child_data \<Rightarrow> word_entry list" where
  "get_words cd = (case words cd of None \<Rightarrow> [] | Some ws \<Rightarrow> ws)"

text \<open>The dictionary built at lines 49 to 55 for a low-confidence entry.\<close>

definition low_confidence_entry :: "dataframe \<Rightarrow> word_entry \<Rightarrow> practice_word" where
  "low_confidence_entry df word_entry =
     (let word_lower = lower (word word_entry);
          typical = (case typical_words_order df word_lower of None \<Rightarrow> 999 | Some a \<Rightarrow> a);
          strat = (case typical_words_strategies df word_lower of
                     None \<Rightarrow> Text default_strategy
                   | Some s \<Rightarrow> s)
      in \<lparr>rec_word = word word_entry,
          rec_confidence = get_confidence word_entry,
          typical_age = typical,
          in_vocab = True,
          strategy = strat\<rparr>)"

text \<open>The loop of lines 44 to 55 over the child's words.\<close>

fun low_confidence_scan :: "dataframe \<Rightarrow> word_entry list \<Rightarrow> practice_word list" where
  "low_confidence_scan df [] = []"
| "low_confidence_scan df (word_entry # rest) =
     (if get_confidence word_entry < 50
      then low_confidence_entry df word_entry # low_confidence_scan df rest
      else low_confidence_scan df rest)"

text \<open>
  \<^verbatim>\<open>low_confidence_words.sort(key=lambda x: x["typical_age"])\<close>: Python's list sort
  is stable and ascending, as is \<^const>\<open>sort_key\<close> (insertion from the right).
\<close>

definition low_confidence_words :: "dataframe \<Rightarrow> child_data \<Rightarrow> practice_word list" where
  "low_confidence_words df cd = sort_key typical_age (low_confidence_scan df (get_words cd))"

text \<open>The dictionary built at lines 75 to 81 for a row of the corpus.\<close>

definition typical_entry :: "typical_row \<Rightarrow> practice_word" where
  "typical_entry row =
     \<lparr>rec_word = Word row,
      rec_confidence = 0,
      typical_age = Typical_Age_Months row,
      in_vocab = False,
      strategy = row_get_strategy row (Text default_strategy)\<rparr>"

text \<open>
  The loop of lines 69 to 81: it stops at the first row reached with five entries
  in \<^verbatim>\<open>practice_words\<close>, and appends the rows whose lower-cased word is not in
  \<^verbatim>\<open>child_words_lower\<close>.
\<close>

fun fill_typical :: "string set \<Rightarrow> dataframe \<Rightarrow> practice_word list \<Rightarrow> practice_word list" where
  "fill_typical child_words_lower [] practice_words = practice_words"
| "fill_typical child_words_lower (row # rows) practice_words =
     (if length practice_words \<ge> 5 then practice_words
      else if lower (Word row) \<notin> child_words_lower
        then fill_typical child_words_lower rows (practice_words @ [typical_entry row])
        else fill_typical child_words_lower rows practice_words)"

text \<open>
  The data frame that \<^verbatim>\<open>load_typical_words()\<close> reads from the file is a parameter.
\<close>

definition get_practice_words :: "dataframe \<Rightarrow> child_data \<Rightarrow> practice_word list" where
  "get_practice_words typical_words_df cd =
     (let practice_words = take 5 (low_confidence_words typical_words_df cd);
          practice_words' =
            (if length practice_words < 5
             then fill_typical (set (map (\<lambda>w. lower (word w)) (get_words cd)))
                    typical_words_df practice_words
             else practice_words)
      in take 5 practice_words')"

text \<open>The words of the corpus that the fill step may append.\<close>

definition fill_candidates :: "dataframe \<Rightarrow> child_data \<Rightarrow> typical_row list" where
  "fill_candidates df cd =
     filter (\<lambda>r. lower (Word r) \<notin> set (map (\<lambda>w. lower (word w)) (get_words cd))) df"

text \<open>The leading entries of the result that are marked \<^verbatim>\<open>in_vocab\<close>.\<close>

definition in_vocabulary_prefix :: "dataframe \<Rightarrow> child_data \<Rightarrow> practice_word list" where
  "in_vocabulary_prefix df cd = takeWhile in_vocab (get_practice_words df cd)"

section \<open>Dates\<close>

text \<open>The fields of a \<^verbatim>\<open>datetime\<close> that the code reads.\<close>

record datetime =
  year :: int
  month :: int
  day :: int

definition digit_value :: "char \<Rightarrow> int option" where
  "digit_value c = map_of (zip ''0123456789'' [0, 1, 2, 3, 4, 5, 6, 7, 8, 9]) c"

text \<open>
  \<^verbatim>\<open>datetime.strptime(s, "%Y-%m-%d")\<close> matches the whole string against four digits,
  a dash, a month (\<^verbatim>\<open>1[0-2]|0[1-9]|[1-9]\<close>), a dash and a day
  (\<^verbatim>\<open>3[01]|[12]\d|0[1-9]|[1-9]| [1-9]\<close>), and then builds the date, which must exist
  (the year is at least 1, the day is in the month). Every failure is a
  \<^verbatim>\<open>ValueError\<close>. The digits are the ASCII digits of a byte string.
\<close>

definition parse_year :: "string \<Rightarrow> int option" where
  "parse_year s =
     (case map digit_value s of
        [Some a, Some b, Some c, Some d] \<Rightarrow> Some (1000 * a + 100 * b + 10 * c + d)
      | _ \<Rightarrow> None)"

definition parse_month :: "string \<Rightarrow> int option" where
  "parse_month s =
     (case map digit_value s of
        [Some a] \<Rightarrow> if 1 \<le> a then Some a else None
      | [Some a, Some b] \<Rightarrow>
          if a = 1 \<and> b \<le> 2 then Some (10 + b)
          else if a = 0 \<and> 1 \<le> b then Some b
          else None
      | _ \<Rightarrow> None)"

definition parse_day :: "string \<Rightarrow> int option" where
  "parse_day s =
     (case s of
        [c] \<Rightarrow>
          (case digit_value c of
             Some a \<Rightarrow> if 1 \<le> a then Some a else None
           | None \<Rightarrow> None)
      | [c, e] \<Rightarrow>
          (case digit_value e of
             Some b \<Rightarrow>
               (case digit_value c of
                  Some a \<Rightarrow>
                    if a = 3 \<and> b \<le> 1 then Some (30 + b)
                    else if a = 1 \<or> a = 2 then Some (10 * a + b)
                    else if a = 0 \<and> 1 \<le> b then Some b
                    else None
                | None \<Rightarrow> if c = CHR '' '' \<and> 1 \<le> b then Some b else None)
           | None \<Rightarrow> None)
      | _ \<Rightarrow> None)"

definition is_leap :: "int \<Rightarrow> bool" where
  "is_leap y = (y mod 4 = 0 \<and> (y mod 100 \<noteq> 0 \<or> y mod 400 = 0))"

definition days_in_month :: "int \<Rightarrow> int \<Rightarrow> int" where
  "days_in_month y m =
     (if m = 2 then (if is_leap y then 29 else 28)
      else if m = 4 \<or> m = 6 \<or> m = 9 \<or> m = 11 then 30
      else 31)"

definition strptime :: "string \<Rightarrow> py_error + datetime" where
  "strptime s =
     (case parse_year (take 4 s) of
        None \<Rightarrow> Inl ValueError
      | Some y \<Rightarrow>
          (case drop 4 s of
             [] \<Rightarrow> Inl ValueError
           | sep # rest \<Rightarrow>
               if sep \<noteq> CHR ''-'' then Inl ValueError
               else
                 (case parse_month (takeWhile (\<lambda>c. c \<noteq> CHR ''-'') rest) of
                    None \<Rightarrow> Inl ValueError
                  | Some m \<Rightarrow>
                      (case dropWhile (\<lambda>c. c \<noteq> CHR ''-'') rest of
                         [] \<Rightarrow> Inl ValueError
                       | _ # ds \<Rightarrow>
                           (case parse_day ds of
                              None \<Rightarrow> Inl ValueError
                            | Some d \<Rightarrow>
                                if 1 \<le> y \<and> d \<le> days_in_month y m
                                then Inr \<lparr>year = y, month = m, day = d\<rparr>
                                else Inl ValueError)))))"

definition calculate_age_in_months :: "string \<Rightarrow> string \<Rightarrow> py_error + int" where
  "calculate_age_in_months birthdate target_date =
     (case strptime birthdate of
        Inl e \<Rightarrow> Inl e
      | Inr birth \<Rightarrow>
          (case strptime target_date of
             Inl e \<Rightarrow> Inl e
           | Inr target \<Rightarrow>
               Inr ((year target - year birth) * 12 + month target - month birth)))"

section \<open>create\_vocabulary\_chart\<close>

text \<open>
  \<^verbatim>\<open>words_by_age\<close> is a \<^verbatim>\<open>defaultdict(list)\<close>: an association list in insertion
  order, with one pair for each key.
\<close>

type_synonym words_by_age = "(int \<times> string list) list"

text \<open>\<^verbatim>\<open>words_by_age[k].append(v)\<close>\<close>

definition dict_append :: "int \<Rightarrow> string \<Rightarrow> words_by_age \<Rightarrow> words_by_age" where
  "dict_append k v d =
     (if k \<in> set (map fst d)
      then map (\<lambda>(k', vs). if k' = k then (k', vs @ [v]) else (k', vs)) d
      else d @ [(k, [v])])"

text \<open>\<^verbatim>\<open>words_by_age[k]\<close>: a missing key of a \<^verbatim>\<open>defaultdict(list)\<close> reads as \<^verbatim>\<open>[]\<close>.\<close>

definition dict_get :: "words_by_age \<Rightarrow> int \<Rightarrow> string list" where
  "dict_get d k = (case map_of d k of None \<Rightarrow> [] | Some vs \<Rightarrow> vs)"

text \<open>
  The loop of lines 122 to 125. The first date that does not parse (the birthday or
  a word's date) ends it with the error.
\<close>

fun group_words :: "string \<Rightarrow> word_entry list \<Rightarrow> words_by_age \<Rightarrow> py_error + words_by_age" where
  "group_words bday [] d = Inr d"
| "group_words bday (word_entry # rest) d =
     (case calculate_age_in_months bday (date_added word_entry) of
        Inl e \<Rightarrow> Inl e
      | Inr age_months \<Rightarrow> group_words bday rest (dict_append age_months (word word_entry) d))"

text \<open>\<^verbatim>\<open>str(n)\<close> for an integer, and \<^verbatim>\<open>sep.join(xs)\<close>.\<close>

fun str_nat :: "nat \<Rightarrow> string" where
  "str_nat n =
     (if n < 10 then [''0123456789'' ! n]
      else str_nat (n div 10) @ [''0123456789'' ! (n mod 10)])"

declare str_nat.simps [simp del]

definition str_int :: "int \<Rightarrow> string" where
  "str_int i = (if i < 0 then CHR ''-'' # str_nat (nat (- i)) else str_nat (nat i))"

fun join :: "string \<Rightarrow> string list \<Rightarrow> string" where
  "join sep [] = []"
| "join sep [s] = s"
| "join sep (s # t # ss) = s @ sep @ join sep (t # ss)"

text \<open>The four lists that the loop of lines 135 to 141 builds.\<close>

record series =
  cumulative_count :: "int list"
  age_labels :: "string list"
  words_per_period :: "int list"
  word_lists :: "string list"

fun chart_loop :: "words_by_age \<Rightarrow> int list \<Rightarrow> int \<Rightarrow> series \<Rightarrow> series" where
  "chart_loop d [] cumulative_total s = s"
| "chart_loop d (age # ages) cumulative_total s =
     (let words_at_age = dict_get d age;
          cumulative_total' = cumulative_total + int (length words_at_age)
      in chart_loop d ages cumulative_total'
           \<lparr>cumulative_count = cumulative_count s @ [cumulative_total'],
            age_labels = age_labels s @ [str_int age @ '' months''],
            words_per_period = words_per_period s @ [int (length words_at_age)],
            word_lists = word_lists s @ [join ''<br>'' words_at_age]\<rparr>)"

text \<open>
  What the returned figure shows: the title, and the bar trace with its \<^verbatim>\<open>x\<close>
  (the age labels), its \<^verbatim>\<open>y\<close> (the cumulative counts) and its \<^verbatim>\<open>customdata\<close>
  (for every bar, the number of new words and their names).
\<close>

record figure =
  fig_title :: string
  bar_x :: "string list"
  bar_y :: "int list"
  bar_customdata :: "(int \<times> string) list"

text \<open>
  \<^verbatim>\<open>child_data["words"]\<close> raises \<^verbatim>\<open>KeyError\<close> without the key; an empty word list
  or a missing birthday returns \<^verbatim>\<open>None\<close>.
\<close>

definition create_vocabulary_chart :: "child_data \<Rightarrow> string \<Rightarrow> py_error + figure option" where
  "create_vocabulary_chart cd child_name =
     (case words cd of
        None \<Rightarrow> Inl KeyError
      | Some ws \<Rightarrow>
          if ws = [] \<or> birthday cd = None then Inr None
          else
            (case group_words (the (birthday cd)) ws [] of
               Inl e \<Rightarrow> Inl e
             | Inr d \<Rightarrow>
                 (let sorted_ages = sort (map fst d);
                      s = chart_loop d sorted_ages 0
                            \<lparr>cumulative_count = [], age_labels = [],
                             words_per_period = [], word_lists = []\<rparr>
                  in Inr (Some \<lparr>fig_title = child_name @ [CHR 0x27] @ ''s Vocabulary Growth'',
                                bar_x = age_labels s,
                                bar_y = cumulative_count s,
                                bar_customdata = zip (words_per_period s) (word_lists s)\<rparr>))))"

section \<open>Helper lemmas on the recommender\<close>

lemma low_confidence_scan_eq:
  "low_confidence_scan df ws =
     map (low_confidence_entry df) (filter (\<lambda>w. get_confidence w < 50) ws)"
  by (induction ws) simp_all

lemma fill_typical_eq:
  "length pw \<le> 5 \<Longrightarrow>
   fill_typical cw rows pw =
     pw @ take (5 - length pw) (map typical_entry (filter (\<lambda>r. lower (Word r) \<notin> cw) rows))"
proof (induction rows arbitrary: pw)
  case Nil
  then show ?case by simp
next
  case (Cons row rows)
  show ?case
  proof (cases "length pw = 5")
    case True
    then show ?thesis by simp
  next
    case False
    with Cons.prems have lt: "length pw < 5" by simp
    show ?thesis
    proof (cases "lower (Word row) \<in> cw")
      case True
      with lt Cons.IH [of pw] show ?thesis by simp
    next
      case False
      from lt have "length (pw @ [typical_entry row]) \<le> 5" by simp
      moreover from lt have "5 - length pw = Suc (4 - length pw)" by simp
      ultimately show ?thesis
        using Cons.IH [of "pw @ [typical_entry row]"] lt False by simp
    qed
  qed
qed

lemma get_practice_words_eq:
  "get_practice_words df cd =
     take 5 (low_confidence_words df cd) @
     take (5 - length (take 5 (low_confidence_words df cd)))
       (map typical_entry (fill_candidates df cd))"
proof -
  let ?P = "take 5 (low_confidence_words df cd)"
  have le: "length ?P \<le> 5" by simp
  show ?thesis
  proof (cases "length ?P < 5")
    case True
    then show ?thesis
      unfolding get_practice_words_def Let_def fill_candidates_def
      by (simp add: fill_typical_eq [OF le] del: length_take)
  next
    case False
    with le have "length ?P = 5" by simp
    then show ?thesis
      unfolding get_practice_words_def Let_def
      by (simp del: length_take)
  qed
qed

lemma in_vocab_low_confidence_entry [simp]: "in_vocab (low_confidence_entry df w)"
  by (simp add: low_confidence_entry_def Let_def)

lemma in_vocab_typical_entry [simp]: "\<not> in_vocab (typical_entry row)"
  by (simp add: typical_entry_def)

lemma set_low_confidence_words:
  "set (low_confidence_words df cd) =
     low_confidence_entry df ` {w \<in> set (get_words cd). get_confidence w < 50}"
  by (simp add: low_confidence_words_def low_confidence_scan_eq)

lemma in_vocab_low_confidence_words:
  "r \<in> set (low_confidence_words df cd) \<Longrightarrow> in_vocab r"
  by (auto simp: set_low_confidence_words)

lemma in_vocab_take_low:
  "r \<in> set (take n (low_confidence_words df cd)) \<Longrightarrow> in_vocab r"
  by (blast dest: in_set_takeD in_vocab_low_confidence_words)

lemma takeWhile_split:
  "\<forall>x\<in>set xs. P x \<Longrightarrow> \<forall>y\<in>set ys. \<not> P y \<Longrightarrow> takeWhile P (xs @ ys) = xs"
  by (cases ys) (simp_all add: takeWhile_append2)

lemma filter_split:
  "\<forall>x\<in>set xs. P x \<Longrightarrow> \<forall>y\<in>set ys. \<not> P y \<Longrightarrow> filter P (xs @ ys) = xs"
  by (simp add: filter_id_conv filter_empty_conv)

lemma not_in_vocab_fill:
  "r \<in> set (take n (map typical_entry rows)) \<Longrightarrow> \<not> in_vocab r"
  by (auto dest!: in_set_takeD)

lemma in_vocabulary_prefix_eq:
  "in_vocabulary_prefix df cd = take 5 (low_confidence_words df cd)"
  unfolding in_vocabulary_prefix_def get_practice_words_eq
  by (rule takeWhile_split) (blast dest: in_vocab_take_low not_in_vocab_fill)+

lemma filter_in_vocab_eq:
  "filter in_vocab (get_practice_words df cd) = take 5 (low_confidence_words df cd)"
  unfolding get_practice_words_eq
  by (rule filter_split) (blast dest: in_vocab_take_low not_in_vocab_fill)+

lemma typical_age_low_confidence_entry:
  "typical_age (low_confidence_entry df w) =
     (case typical_words_order df (lower (word w)) of None \<Rightarrow> 999 | Some a \<Rightarrow> a)"
  by (simp add: low_confidence_entry_def Let_def)

lemma rec_word_low_confidence_entry [simp]:
  "rec_word (low_confidence_entry df w) = word w"
  by (simp add: low_confidence_entry_def Let_def)

lemma rec_confidence_low_confidence_entry [simp]:
  "rec_confidence (low_confidence_entry df w) = get_confidence w"
  by (simp add: low_confidence_entry_def Let_def)

lemma sorted_low_confidence_words:
  "sorted (map typical_age (low_confidence_words df cd))"
  by (simp add: low_confidence_words_def)

lemma prefix_filter_take: "prefix (filter P (take n xs)) (filter P xs)"
proof -
  have "filter P xs = filter P (take n xs) @ filter P (drop n xs)"
    by (metis append_take_drop_id filter_append)
  then show ?thesis by (simp add: prefix_def)
qed

lemma stable_low_confidence_words:
  "filter (\<lambda>r. typical_age r = k) (low_confidence_words df cd) =
     map (low_confidence_entry df)
       (filter (\<lambda>w. get_confidence w < 50 \<and> typical_age (low_confidence_entry df w) = k)
          (get_words cd))"
  unfolding low_confidence_words_def sort_key_stable low_confidence_scan_eq
  by (simp add: filter_map comp_def conj_commute)

section \<open>Properties of the recommender\<close>

text \<open>
  C1. For every child and corpus, the leading \<^verbatim>\<open>in_vocab\<close> entries of the result of
  \<^verbatim>\<open>get_practice_words\<close> (they are all its \<^verbatim>\<open>in_vocab\<close> entries) are sorted
  ascending by typical age; the typical age of an entry is the corpus's age for the
  lower-cased word, and the sentinel 999 for a word that is not in the corpus, so that
  nothing placed after such a word has a typical age below 999; and the sort is stable:
  for every age \<open>k\<close>, the entries of that age stand in the order of the child's word
  list (they are a prefix of the child's low-confidence entries of that age, since the
  result is cut at five).
\<close>

theorem in_vocabulary_prefix_sorted_stable:
  "sorted (map typical_age (in_vocabulary_prefix df cd)) \<and>
   in_vocabulary_prefix df cd = filter in_vocab (get_practice_words df cd) \<and>
   (\<forall>r \<in> set (in_vocabulary_prefix df cd).
      typical_age r =
        (case typical_words_order df (lower (rec_word r)) of None \<Rightarrow> 999 | Some a \<Rightarrow> a)) \<and>
   (\<forall>i j. i < j \<longrightarrow> j < length (in_vocabulary_prefix df cd) \<longrightarrow>
      typical_words_order df (lower (rec_word (in_vocabulary_prefix df cd ! i))) = None \<longrightarrow>
      999 \<le> typical_age (in_vocabulary_prefix df cd ! j)) \<and>
   (\<forall>k. prefix (filter (\<lambda>r. typical_age r = k) (in_vocabulary_prefix df cd))
          (map (low_confidence_entry df)
             (filter (\<lambda>w. get_confidence w < 50 \<and> typical_age (low_confidence_entry df w) = k)
                (get_words cd))))"
proof -
  let ?P = "in_vocabulary_prefix df cd"
  have srt: "sorted (map typical_age ?P)"
    unfolding in_vocabulary_prefix_eq take_map [symmetric]
    by (rule sorted_wrt_take) (rule sorted_low_confidence_words)
  have age: "typical_age r =
        (case typical_words_order df (lower (rec_word r)) of None \<Rightarrow> 999 | Some a \<Rightarrow> a)"
    if "r \<in> set ?P" for r
  proof -
    from that have "r \<in> set (low_confidence_words df cd)"
      unfolding in_vocabulary_prefix_eq by (rule in_set_takeD)
    then obtain w where "r = low_confidence_entry df w"
      by (auto simp: set_low_confidence_words)
    then show ?thesis by (simp add: typical_age_low_confidence_entry)
  qed
  have last: "999 \<le> typical_age (?P ! j)"
    if "i < j" "j < length ?P" "typical_words_order df (lower (rec_word (?P ! i))) = None"
    for i j
  proof -
    from that have "?P ! i \<in> set ?P" by simp
    from age [OF this] that(3) have "typical_age (?P ! i) = 999" by simp
    moreover from srt that have "map typical_age ?P ! i \<le> map typical_age ?P ! j"
      by (simp add: sorted_iff_nth_mono del: nth_map)
    ultimately show ?thesis using that by simp
  qed
  have stab: "prefix (filter (\<lambda>r. typical_age r = k) ?P)
          (map (low_confidence_entry df)
             (filter (\<lambda>w. get_confidence w < 50 \<and> typical_age (low_confidence_entry df w) = k)
                (get_words cd)))" for k
    unfolding in_vocabulary_prefix_eq stable_low_confidence_words [symmetric]
    by (rule prefix_filter_take)
  from srt age last stab show ?thesis
    by (simp add: in_vocabulary_prefix_eq filter_in_vocab_eq)
qed


text \<open>
  C2. For every child and every reference corpus the list that
  \<^verbatim>\<open>get_practice_words\<close> returns has at most five entries. Its length is the
  smaller of five and the number of low-confidence entries plus the number of corpus
  rows whose word is not in the vocabulary: it is shorter than five exactly when the
  low-confidence words and the corpus fallback together give fewer than five.
\<close>

theorem get_practice_words_length:
  "length (get_practice_words df cd) \<le> 5 \<and>
   length (get_practice_words df cd) =
     min 5 (length (low_confidence_scan df (get_words cd)) + length (fill_candidates df cd))"
proof -
  let ?n = "length (low_confidence_scan df (get_words cd))"
  let ?m = "length (fill_candidates df cd)"
  have "length (get_practice_words df cd) = min ?n 5 + min ?m (5 - min ?n 5)"
    unfolding get_practice_words_eq low_confidence_words_def by simp
  then show ?thesis by linarith
qed

end
